theory Spec2Isabelle
  imports Main "HOL-Library.Word"
begin

section \<open>The HDLC interface to the radio co-processor\<close>

text \<open>
  A shallow embedding of \<^verbatim>\<open>src/posix/platform/hdlc_interface.cpp\<close>
  (class \<^verbatim>\<open>ot::PosixApp::HdlcInterface\<close>). The system calls and the
  library functions the file calls (\<^verbatim>\<open>write\<close>, \<^verbatim>\<open>read\<close>,
  \<^verbatim>\<open>open\<close>, \<^verbatim>\<open>forkpty\<close>, ...) are the environment: every
  function of the model takes what the environment answers as an argument and
  returns what the code does with the answer.
\<close>

subsection \<open>Data\<close>

type_synonym uint8_t = "8 word"
type_synonym uint16_t = "16 word"

text \<open>The values of \<^verbatim>\<open>otError\<close> that occur in the file, and
  \<^verbatim>\<open>OT_ERROR_NO_BUFS\<close> for the encoder.\<close>

datatype otError =
    OT_ERROR_NONE
  | OT_ERROR_FAILED
  | OT_ERROR_NO_BUFS
  | OT_ERROR_INVALID_ARGS
  | OT_ERROR_ALREADY

text \<open>The values of \<^verbatim>\<open>errno\<close> are symbolic; the file compares it
  with \<^verbatim>\<open>EAGAIN\<close> only.\<close>

datatype errno_t = EAGAIN | EINTR | EIO | EBADF | EPIPE | ENOSPC | EINVAL

text \<open>What a call of \<^verbatim>\<open>write\<close> or \<^verbatim>\<open>read\<close> answers: the
  returned \<^verbatim>\<open>ssize_t\<close> and the value of \<^verbatim>\<open>errno\<close> after the call.\<close>

record sys_result =
  rval :: int
  errno :: errno_t

text \<open>The underlying \<^verbatim>\<open>write\<close> as the loop sees it: \<open>wr k n\<close> is the answer of
  the \<open>k\<close>-th call of one \<^verbatim>\<open>Write\<close>, made with count \<open>n\<close>.\<close>

type_synonym write_calls = "nat \<Rightarrow> nat \<Rightarrow> sys_result"

text \<open>The object: the descriptor of the channel (\<open>-1\<close> when there is none) and
  the flag that is set while the decoder runs. The listener \<^verbatim>\<open>mCallbacks\<close> and the
  decoder \<^verbatim>\<open>mHdlcDecoder\<close> are not defined in this file; they belong to the
  environment.\<close>

record HdlcInterface =
  mSockFd :: int
  mIsDecoding :: bool

text \<open>The constructor.\<close>

definition HdlcInterface_ctor :: HdlcInterface where
  "HdlcInterface_ctor = \<lparr>mSockFd = -1, mIsDecoding = False\<rparr>"

text \<open>How a call ends: it returns, or the process ends in \<^verbatim>\<open>exit\<close>, in
  \<^verbatim>\<open>abort\<close> or in a failed \<^verbatim>\<open>assert\<close>, or \<^verbatim>\<open>execl\<close> replaces the
  process image by the shell running the given command.\<close>

datatype exit_status = OT_EXIT_FAILURE | OT_EXIT_INVALID_ARGUMENTS

datatype 'a outcome =
    Returned 'a
  | Exited exit_status
  | Aborted
  | AssertionFailed
  | ImageReplaced string

fun bind_outcome :: "'a outcome \<Rightarrow> ('a \<Rightarrow> 'b outcome) \<Rightarrow> 'b outcome" where
  "bind_outcome (Returned x) f = f x"
| "bind_outcome (Exited c) f = Exited c"
| "bind_outcome Aborted f = Aborted"
| "bind_outcome AssertionFailed f = AssertionFailed"
| "bind_outcome (ImageReplaced cmd) f = ImageReplaced cmd"

text \<open>What the build fixes: the two configuration macros the file tests, whether
  \<^verbatim>\<open>assert\<close> is compiled out (\<^verbatim>\<open>NDEBUG\<close>), and which of the baud-rate macros
  that the file tests with \<^verbatim>\<open>#ifdef\<close> the platform's \<^verbatim>\<open>termios.h\<close> defines.\<close>

record build_config =
  OPENTHREAD_POSIX_VIRTUAL_TIME :: bool
  OPENTHREAD_CONFIG_POSIX_APP_ENABLE_PTY_DEVICE :: bool
  NDEBUG :: bool
  defined_B :: "int \<Rightarrow> bool"

text \<open>\<^verbatim>\<open>assert(c)\<close>: ends the process when \<open>c\<close> is false, unless compiled out.\<close>

definition assert_fails :: "build_config \<Rightarrow> bool \<Rightarrow> bool" where
  "assert_fails cfg c = (\<not> NDEBUG cfg \<and> \<not> c)"

subsection \<open>\<^verbatim>\<open>HdlcInterface::Write\<close>: the retry loop\<close>

text \<open>
  \<^verbatim>\<open>
    while (aLength)
    {
        ssize_t rval = write(mSockFd, aFrame, aLength);
        if (rval > 0)
        {
            aLength -= static_cast<uint16_t>(rval);
            aFrame += static_cast<uint16_t>(rval);
        }
        else if (rval < 0)
        {
            perror("HdlcInterface::Write");
            ExitNow(error = OT_ERROR_FAILED);
        }
        else
        {
            ExitNow(error = OT_ERROR_FAILED);
        }
    }
  \<close>
  \<open>mem\<close> is the memory the pointer \<^verbatim>\<open>aFrame\<close> ranges over and \<open>aFrame\<close> the
  pointer's offset into it; \<open>aLength\<close> is the 16-bit remaining length, and the
  casts to \<^verbatim>\<open>uint16_t\<close> truncate as in the source. \<open>chan\<close> collects the bytes
  the channel has taken: a call that answers \<open>r > 0\<close> has taken the first \<open>r\<close>
  of the \<open>aLength\<close> bytes offered at \<open>aFrame\<close>. The loop may run forever, so the
  result is an option and \<open>None\<close> stands for not returning.
\<close>

partial_function (option) Write_loop ::
  "write_calls \<Rightarrow> uint8_t list \<Rightarrow> nat \<Rightarrow> nat \<Rightarrow> uint16_t \<Rightarrow> uint8_t list
     \<Rightarrow> (otError \<times> uint8_t list) option"
where
  "Write_loop wr mem k aFrame aLength chan =
     (if aLength \<noteq> 0 then
        (if rval (wr k (unat aLength)) > 0 then
           Write_loop wr mem (Suc k)
             (aFrame + unat (word_of_int (rval (wr k (unat aLength))) :: uint16_t))
             (aLength - word_of_int (rval (wr k (unat aLength))))
             (chan @ take (nat (rval (wr k (unat aLength))))
                      (take (unat aLength) (drop aFrame mem)))
         else if rval (wr k (unat aLength)) < 0 then Some (OT_ERROR_FAILED, chan)
         else Some (OT_ERROR_FAILED, chan))
      else Some (OT_ERROR_NONE, chan))"

declare Write_loop.simps [code]


subsection \<open>\<^verbatim>\<open>EncoderBuffer\<close> and \<^verbatim>\<open>HdlcInterface::SendFrame\<close>\<close>









subsection \<open>\<^verbatim>\<open>HdlcInterface::Read\<close> and \<^verbatim>\<open>HdlcInterface::Decode\<close>\<close>

text \<open>
  The decoder and the listener are outside this file, and the listener, called
  from inside the decoder, may call the object again. What they do during one
  call of \<^verbatim>\<open>Read\<close> is given by the environment as a script: what
  \<^verbatim>\<open>read\<close> answers, the contents of the local buffer after it, and the callbacks
  the decoder then makes, in order; for a frame callback, the calls of
  \<^verbatim>\<open>Read\<close> that the listener makes before it returns.
\<close>

text \<open>What \<^verbatim>\<open>read\<close> answers, and the value of \<^verbatim>\<open>errno\<close> when the call
  \<^verbatim>\<open>perror("HdlcInterface::Read()")\<close> that follows a negative answer has returned:
  \<^verbatim>\<open>perror\<close> writes to the standard error stream and can set \<^verbatim>\<open>errno\<close> itself
  (it equals \<open>errno\<close> when \<^verbatim>\<open>perror\<close> leaves it alone).\<close>

record read_result = sys_result +
  perror_errno :: errno_t

datatype decoder_callback =
    FrameCallback "read_call list"
  | ErrorCallback
and read_call =
    ReadCall read_result "uint8_t list" "decoder_callback list"

text \<open>What is observed of a run: each call of \<^verbatim>\<open>read\<close> with the value of
  \<open>mIsDecoding\<close> when it is made, the bytes handed to the decoder, and the value
  of \<open>mIsDecoding\<close> seen inside a callback (in the listener: on entry and after
  each call it makes).\<close>

datatype event =
    SysRead bool
  | DecoderInput "uint8_t list"
  | InListener bool
  | InErrorHandler bool

type_synonym run = "(HdlcInterface \<times> event list) outcome"

text \<open>
  \<^verbatim>\<open>
    void HdlcInterface::Read(void)
    {
        uint8_t buffer[kMaxFrameSize];
        ssize_t rval;
        rval = read(mSockFd, buffer, sizeof(buffer));
        if (rval < 0)
        {
            perror("HdlcInterface::Read()");
            if (errno != EAGAIN) { abort(); }
        }
        if (rval > 0) { Decode(buffer, static_cast<uint16_t>(rval)); }
    }

    void HdlcInterface::Decode(const uint8_t *aBuffer, uint16_t aLength)
    {
        mIsDecoding = true;
        mHdlcDecoder.Decode(aBuffer, aLength);
        mIsDecoding = false;
    }
  \<close>
  The test of \<^verbatim>\<open>errno\<close> comes after \<^verbatim>\<open>perror\<close>, so it reads what \<^verbatim>\<open>perror\<close>
  left. \<open>Hdlc_Decoder_Decode\<close> runs the callbacks of the script;
  \<open>HandleHdlcFrame\<close> is the listener's \<^verbatim>\<open>HandleReceivedFrame\<close>, reached through
  \<^verbatim>\<open>HdlcInterface::HandleHdlcFrame\<close>; \<^verbatim>\<open>HdlcInterface::HandleHdlcError\<close> only logs.
\<close>

fun Read :: "read_call \<Rightarrow> HdlcInterface \<Rightarrow> event list \<Rightarrow> run"
and Decode :: "uint8_t list \<Rightarrow> uint16_t \<Rightarrow> decoder_callback list \<Rightarrow> HdlcInterface
     \<Rightarrow> event list \<Rightarrow> run"
and Hdlc_Decoder_Decode :: "decoder_callback list \<Rightarrow> HdlcInterface \<Rightarrow> event list \<Rightarrow> run"
and HandleHdlcFrame :: "read_call list \<Rightarrow> HdlcInterface \<Rightarrow> event list \<Rightarrow> run"
where
  "Read (ReadCall res buffer cbs) s t =
     (if rval res < 0 \<and> perror_errno res \<noteq> EAGAIN then Aborted
      else if rval res > 0 then
        Decode buffer (word_of_int (rval res)) cbs s (t @ [SysRead (mIsDecoding s)])
      else Returned (s, t @ [SysRead (mIsDecoding s)]))"
| "Decode aBuffer aLength cbs s t =
     bind_outcome
       (Hdlc_Decoder_Decode cbs (s\<lparr>mIsDecoding := True\<rparr>)
          (t @ [DecoderInput (take (unat aLength) aBuffer)]))
       (\<lambda>(s', t'). Returned (s'\<lparr>mIsDecoding := False\<rparr>, t'))"
| "Hdlc_Decoder_Decode [] s t = Returned (s, t)"
| "Hdlc_Decoder_Decode (FrameCallback rds # cbs) s t =
     bind_outcome (HandleHdlcFrame rds s t) (\<lambda>(s', t'). Hdlc_Decoder_Decode cbs s' t')"
| "Hdlc_Decoder_Decode (ErrorCallback # cbs) s t =
     Hdlc_Decoder_Decode cbs s (t @ [InErrorHandler (mIsDecoding s)])"
| "HandleHdlcFrame [] s t = Returned (s, t @ [InListener (mIsDecoding s)])"
| "HandleHdlcFrame (rd # rds) s t =
     bind_outcome (Read rd s (t @ [InListener (mIsDecoding s)]))
       (\<lambda>(s', t'). HandleHdlcFrame rds s' t')"

text \<open>A callback that makes no call of \<^verbatim>\<open>Read\<close>, and the event a callback
  leaves when it sees the flag with value \<open>b\<close>.\<close>

fun makes_no_call :: "decoder_callback \<Rightarrow> bool" where
  "makes_no_call (FrameCallback rds) = (rds = [])"
| "makes_no_call ErrorCallback = True"

fun seen_in :: "bool \<Rightarrow> decoder_callback \<Rightarrow> event" where
  "seen_in b (FrameCallback rds) = InListener b"
| "seen_in b ErrorCallback = InErrorHandler b"

subsection \<open>The kernel's side\<close>

text \<open>The control flags of \<^verbatim>\<open>termios\<close> that the file names, the symbolic speed
  constants (\<open>B 9600\<close> is \<^verbatim>\<open>B9600\<close>), and the two things a \<^verbatim>\<open>struct termios\<close>
  carries that the file decides: \<open>c_cflag\<close> and the speed.\<close>

datatype cflag = CS8 | HUPCL | CREAD | CLOCAL | PARENB | PARODD | CSTOPB

datatype speed_t = B int

record termios =
  c_cflag :: "cflag set"
  c_speed :: speed_t

text \<open>The descriptors the process holds, and the attributes that the last
  successful \<^verbatim>\<open>tcsetattr\<close> programmed.\<close>

record kernel =
  open_fds :: "int set"
  tty_attr :: "termios option"

text \<open>The process gets a descriptor from \<^verbatim>\<open>open\<close> or \<^verbatim>\<open>forkpty\<close> (a descriptor
  is not negative) and gives it back with \<^verbatim>\<open>close\<close>.\<close>

definition fd_acquired :: "int \<Rightarrow> kernel \<Rightarrow> kernel" where
  "fd_acquired fd kern = (if 0 \<le> fd then kern\<lparr>open_fds := insert fd (open_fds kern)\<rparr> else kern)"

definition fd_released :: "int \<Rightarrow> kernel \<Rightarrow> kernel" where
  "fd_released fd kern = kern\<lparr>open_fds := open_fds kern - {fd}\<rparr>"

subsection \<open>\<^verbatim>\<open>sscanf(aConfig, "%u%c%d", &speed, &parity, &cstopb)\<close>\<close>

definition isspace :: "char \<Rightarrow> bool" where
  "isspace c = (c \<in> {CHR '' '', CHR 0x09, CHR 0x0A, CHR 0x0B, CHR 0x0C, CHR 0x0D})"

definition isdigit :: "char \<Rightarrow> bool" where
  "isdigit c = ((48::nat) \<le> of_char c \<and> of_char c \<le> (57::nat))"

definition decimal :: "string \<Rightarrow> int" where
  "decimal ds = foldl (\<lambda>a c. 10 * a + (int (of_char c) - 48)) 0 ds"

text \<open>The conversions \<^verbatim>\<open>%u\<close> and \<^verbatim>\<open>%d\<close>: white space is skipped, then an
  optional sign and at least one decimal digit are read; without a digit the
  conversion fails. The result is the number and the rest of the input.\<close>

definition scan_number :: "string \<Rightarrow> (int \<times> string) option" where
  "scan_number s =
     (let s1 = dropWhile isspace s;
          neg = (case s1 of [] \<Rightarrow> False | c # _ \<Rightarrow> c = CHR ''-'');
          s2 = (case s1 of [] \<Rightarrow> [] | c # r \<Rightarrow> if c = CHR ''-'' \<or> c = CHR ''+'' then r else s1);
          ds = takeWhile isdigit s2
      in if ds = [] then None
         else Some (if neg then - decimal ds else decimal ds, dropWhile isdigit s2))"

text \<open>The number as the 32-bit \<^verbatim>\<open>int\<close> it is stored in reads it (\<^verbatim>\<open>%u\<close> stores
  through a pointer to the \<^verbatim>\<open>int speed\<close>). ISO C leaves a number that does not
  fit undefined; the model does what glibc does with a 64-bit \<^verbatim>\<open>long\<close>: \<^verbatim>\<open>%u\<close>
  converts as \<^verbatim>\<open>strtoul\<close> and \<^verbatim>\<open>%d\<close> as \<^verbatim>\<open>strtol\<close>, which put
  \<^verbatim>\<open>ULONG_MAX\<close>, \<^verbatim>\<open>LONG_MAX\<close> or \<^verbatim>\<open>LONG_MIN\<close> for a number out of their
  range, and the result is cut to 32 bits.\<close>

definition stored_unsigned :: "int \<Rightarrow> int" where
  "stored_unsigned v =
     sint (word_of_int (if 2 ^ 64 \<le> \<bar>v\<bar> then 2 ^ 64 - 1 else v) :: 32 word)"

definition stored_signed :: "int \<Rightarrow> int" where
  "stored_signed v =
     sint (word_of_int
       (if 2 ^ 63 - 1 < v then 2 ^ 63 - 1 else if v < - (2 ^ 63) then - (2 ^ 63) else v)
       :: 32 word)"

text \<open>The call: the three variables before it, the number of fields assigned
  and the three variables after it. \<^verbatim>\<open>%c\<close> takes the next character, whatever
  it is. The first conversion that fails ends the call, and the variables not
  yet assigned keep their values.\<close>

definition sscanf_config :: "string \<Rightarrow> int \<times> char \<times> int \<Rightarrow> nat \<times> int \<times> char \<times> int" where
  "sscanf_config aConfig vars =
     (case vars of (speed, parity, cstopb) \<Rightarrow>
        (case scan_number aConfig of
           None \<Rightarrow> (0, speed, parity, cstopb)
         | Some (u, s1) \<Rightarrow>
             (case s1 of
                [] \<Rightarrow> (1, stored_unsigned u, parity, cstopb)
              | c # s2 \<Rightarrow>
                  (case scan_number s2 of
                     None \<Rightarrow> (2, stored_unsigned u, c, cstopb)
                   | Some (d, s3) \<Rightarrow> (3, stored_unsigned u, c, stored_signed d)))))"

subsection \<open>\<^verbatim>\<open>HdlcInterface::OpenFile\<close>\<close>

text \<open>The \<^verbatim>\<open>switch (speed)\<close>: five cases are always there, the others only
  where the platform defines the macro.\<close>

definition always_cases :: "int list" where
  "always_cases = [9600, 19200, 38400, 57600, 115200]"

definition ifdef_cases :: "int list" where
  "ifdef_cases = [230400, 460800, 500000, 576000, 921600, 1000000, 1152000, 1500000,
                  2000000, 2500000, 3000000, 3500000, 4000000]"

definition switch_speed :: "build_config \<Rightarrow> int \<Rightarrow> speed_t option" where
  "switch_speed cfg speed =
     (if speed \<in> set always_cases then Some (B speed)
      else if speed \<in> set ifdef_cases \<and> defined_B cfg speed then Some (B speed)
      else None)"

text \<open>The \<^verbatim>\<open>switch (parity)\<close> and the \<^verbatim>\<open>switch (cstopb)\<close>, on the flags;
  \<open>None\<close> is the \<^verbatim>\<open>default\<close> case.\<close>

definition switch_parity :: "char \<Rightarrow> cflag set \<Rightarrow> cflag set option" where
  "switch_parity parity fl =
     (if parity = CHR ''N'' then Some fl
      else if parity = CHR ''E'' then Some (fl \<union> {PARENB})
      else if parity = CHR ''O'' then Some (fl \<union> {PARENB, PARODD})
      else None)"

definition switch_cstopb :: "int \<Rightarrow> cflag set \<Rightarrow> cflag set option" where
  "switch_cstopb cstopb fl =
     (if cstopb = 1 then Some (fl - {CSTOPB})
      else if cstopb = 2 then Some (fl \<union> {CSTOPB})
      else None)"

text \<open>The \<^verbatim>\<open>default\<close> case of each switch: \<^verbatim>\<open>assert(false);
  exit(OT_EXIT_INVALID_ARGUMENTS);\<close>\<close>

definition not_supported :: "build_config \<Rightarrow> 'a outcome" where
  "not_supported cfg =
     (if assert_fails cfg False then AssertionFailed else Exited OT_EXIT_INVALID_ARGUMENTS)"

text \<open>What the environment answers to the calls of \<^verbatim>\<open>OpenFile\<close>.\<close>

record openfile_env =
  open_rval :: int
  isatty_rval :: bool
  tcgetattr_rval :: int
  cfsetspeed_rval :: int
  tcsetattr_rval :: int
  tcflush_rval :: int

text \<open>From \<^verbatim>\<open>sscanf\<close> on, with \<open>fd\<close> open and \<^verbatim>\<open>tcgetattr\<close> done: the three
  switches, then \<^verbatim>\<open>cfsetspeed\<close>, \<^verbatim>\<open>tcsetattr\<close> and \<^verbatim>\<open>tcflush\<close>, each under
  \<^verbatim>\<open>VerifyOrExit\<close>; a nonzero \<^verbatim>\<open>rval\<close> reaches \<^verbatim>\<open>exit(OT_EXIT_FAILURE)\<close>.\<close>

definition configure_line ::
  "build_config \<Rightarrow> openfile_env \<Rightarrow> string \<Rightarrow> int \<Rightarrow> kernel \<Rightarrow> (int \<times> kernel) outcome"
where
  "configure_line cfg env aConfig fd kern =
     (case sscanf_config aConfig (115200, CHR ''N'', 1) of
        (assigned, speed, parity, cstopb) \<Rightarrow>
          (case switch_parity parity {CS8, HUPCL, CREAD, CLOCAL} of
             None \<Rightarrow> not_supported cfg
           | Some fl1 \<Rightarrow>
               (case switch_cstopb cstopb fl1 of
                  None \<Rightarrow> not_supported cfg
                | Some fl2 \<Rightarrow>
                    (case switch_speed cfg speed of
                       None \<Rightarrow> not_supported cfg
                     | Some sp \<Rightarrow>
                         if cfsetspeed_rval env \<noteq> 0 then Exited OT_EXIT_FAILURE
                         else if tcsetattr_rval env \<noteq> 0 then Exited OT_EXIT_FAILURE
                         else if tcflush_rval env \<noteq> 0 then Exited OT_EXIT_FAILURE
                         else Returned
                           (fd, kern\<lparr>tty_attr := Some \<lparr>c_cflag = fl2, c_speed = sp\<rparr>\<rparr>)))))"

text \<open>\<^verbatim>\<open>OpenFile\<close>: a failed \<^verbatim>\<open>open\<close> returns \<open>-1\<close>; a descriptor that is not a
  terminal is returned as it is; a failed \<^verbatim>\<open>tcgetattr\<close> reaches
  \<^verbatim>\<open>exit(OT_EXIT_FAILURE)\<close>.\<close>

definition OpenFile ::
  "build_config \<Rightarrow> openfile_env \<Rightarrow> string \<Rightarrow> string \<Rightarrow> kernel \<Rightarrow> (int \<times> kernel) outcome"
where
  "OpenFile cfg env aFile aConfig kern =
     (let fd = open_rval env in
      if fd = -1 then Returned (fd, kern)
      else
        (let kern1 = fd_acquired fd kern in
         if isatty_rval env then
           (if tcgetattr_rval env \<noteq> 0 then Exited OT_EXIT_FAILURE
            else configure_line cfg env aConfig fd kern1)
         else Returned (fd, kern1)))"

subsection \<open>\<^verbatim>\<open>HdlcInterface::ForkPty\<close>\<close>

text \<open>What the environment answers to the calls of \<^verbatim>\<open>ForkPty\<close>: \<open>forkpty_fd\<close>
  is the value of \<^verbatim>\<open>fd\<close> after \<^verbatim>\<open>forkpty(&fd, ...)\<close> (\<open>-1\<close>, its initial value,
  when nothing was stored), \<open>rlim_cur\<close> the limit \<^verbatim>\<open>getrlimit\<close> reports, and
  \<open>execl_fails\<close> whether \<^verbatim>\<open>execl\<close> returns.\<close>

record forkpty_env =
  forkpty_rval :: int
  forkpty_fd :: int
  rlim_cur :: int
  setenv_rval :: int
  execl_fails :: bool
  fcntl_getfl_rval :: int
  fcntl_setfl_rval :: int

text \<open>The value of \<^verbatim>\<open>snprintf(cmd, sizeof(cmd), "exec %s %s", aCommand,
  aArguments)\<close>: the length of the whole text.\<close>

definition snprintf_exec :: "string \<Rightarrow> string \<Rightarrow> int" where
  "snprintf_exec aCommand aArguments =
     int (length (''exec '' @ aCommand @ '' '' @ aArguments))"

definition kMaxCommand :: int where
  "kMaxCommand = 255"

text \<open>In the child (\<^verbatim>\<open>pid\<close> is 0) the function returns \<^verbatim>\<open>fd\<close> when \<^verbatim>\<open>setenv\<close>
  fails or the command is too long, and otherwise ends in the new image or in
  \<^verbatim>\<open>exit(OT_EXIT_INVALID_ARGUMENTS)\<close>. In the parent the descriptor is set
  non-blocking, and closed and replaced by \<open>-1\<close> when that fails.\<close>

definition ForkPty ::
  "forkpty_env \<Rightarrow> string \<Rightarrow> string \<Rightarrow> kernel \<Rightarrow> (int \<times> kernel) outcome"
where
  "ForkPty env aCommand aArguments kern =
     (let pid = forkpty_rval env; fd = forkpty_fd env in
      if \<not> pid \<ge> 0 then Returned (fd, kern)
      else if 0 = pid then
        (if setenv_rval env \<noteq> 0 then Returned (fd, kern)
         else
           (let kern1 = kern\<lparr>open_fds := {i \<in> open_fds kern. \<not> (3 \<le> i \<and> i < rlim_cur env)}\<rparr>;
                n = snprintf_exec aCommand aArguments
            in if \<not> (n > 0 \<and> n < kMaxCommand) then Returned (fd, kern1)
               else if execl_fails env then Exited OT_EXIT_INVALID_ARGUMENTS
               else ImageReplaced (''exec '' @ aCommand @ '' '' @ aArguments)))
      else
        (let kern1 = fd_acquired fd kern;
             r1 = fcntl_getfl_rval env;
             r2 = (if r1 \<noteq> -1 then fcntl_setfl_rval env else r1)
         in if r2 = -1 then Returned (-1, fd_released fd kern1)
            else Returned (fd, kern1)))"

subsection \<open>\<^verbatim>\<open>HdlcInterface::Init\<close> and \<^verbatim>\<open>HdlcInterface::Deinit\<close>\<close>

text \<open>What \<^verbatim>\<open>stat\<close> answers: its value and the file type that \<^verbatim>\<open>S_ISCHR\<close> and
  \<^verbatim>\<open>S_ISREG\<close> read from \<^verbatim>\<open>st_mode\<close>.\<close>

datatype file_type = CharacterDevice | RegularFile | OtherFile

record init_env =
  stat_rval :: int
  st_mode :: file_type
  openfile :: openfile_env
  forkpty :: forkpty_env

text \<open>
  \<^verbatim>\<open>
    VerifyOrExit(mSockFd == -1, error = OT_ERROR_ALREADY);
    VerifyOrExit(stat(aRadioFile, &st) == 0, perror("stat ncp file failed"); error = OT_ERROR_INVALID_ARGS);
    if (S_ISCHR(st.st_mode))
    {
        mSockFd = OpenFile(aRadioFile, aRadioConfig);
        VerifyOrExit(mSockFd != -1, error = OT_ERROR_INVALID_ARGS);
    }
    #if OPENTHREAD_CONFIG_POSIX_APP_ENABLE_PTY_DEVICE
    else if (S_ISREG(st.st_mode))
    {
        mSockFd = ForkPty(aRadioFile, aRadioConfig);
        VerifyOrExit(mSockFd != -1, error = OT_ERROR_INVALID_ARGS);
    }
    #endif
    else
    {
        otLogCritPlat("Radio file '%s' not supported", aRadioFile);
        ExitNow(error = OT_ERROR_INVALID_ARGS);
    }
  \<close>
\<close>

definition store_fd ::
  "HdlcInterface \<Rightarrow> int \<times> kernel \<Rightarrow> (otError \<times> HdlcInterface \<times> kernel) outcome"
where
  "store_fd s r =
     (case r of (fd, kern') \<Rightarrow>
        (let s' = s\<lparr>mSockFd := fd\<rparr> in
         if mSockFd s' \<noteq> -1 then Returned (OT_ERROR_NONE, s', kern')
         else Returned (OT_ERROR_INVALID_ARGS, s', kern')))"

definition Init ::
  "build_config \<Rightarrow> init_env \<Rightarrow> string \<Rightarrow> string \<Rightarrow> kernel \<Rightarrow> HdlcInterface
     \<Rightarrow> (otError \<times> HdlcInterface \<times> kernel) outcome"
where
  "Init cfg env aRadioFile aRadioConfig kern s =
     (if \<not> mSockFd s = -1 then Returned (OT_ERROR_ALREADY, s, kern)
      else if \<not> stat_rval env = 0 then Returned (OT_ERROR_INVALID_ARGS, s, kern)
      else if st_mode env = CharacterDevice then
        bind_outcome (OpenFile cfg (openfile env) aRadioFile aRadioConfig kern) (store_fd s)
      else if OPENTHREAD_CONFIG_POSIX_APP_ENABLE_PTY_DEVICE cfg \<and> st_mode env = RegularFile then
        bind_outcome (ForkPty (forkpty env) aRadioFile aRadioConfig kern) (store_fd s)
      else Returned (OT_ERROR_INVALID_ARGS, s, kern))"

text \<open>
  \<^verbatim>\<open>
    assert(mSockFd != -1);
    VerifyOrExit(0 == close(mSockFd), perror("close NCP"));
    VerifyOrExit(-1 != wait(NULL), perror("wait NCP"));
    mSockFd = -1;
  \<close>
  A \<^verbatim>\<open>close\<close> that answers 0 has released the descriptor.
\<close>

record deinit_env =
  close_rval :: int
  wait_rval :: int

definition Deinit ::
  "build_config \<Rightarrow> deinit_env \<Rightarrow> kernel \<Rightarrow> HdlcInterface \<Rightarrow> (HdlcInterface \<times> kernel) outcome"
where
  "Deinit cfg env kern s =
     (if assert_fails cfg (mSockFd s \<noteq> -1) then AssertionFailed
      else if \<not> 0 = close_rval env then Returned (s, kern)
      else
        (let kern1 = fd_released (mSockFd s) kern in
         if \<not> -1 \<noteq> wait_rval env then Returned (s, kern1)
         else Returned (s\<lparr>mSockFd := -1\<rparr>, kern1)))"

subsection \<open>Environments to evaluate at\<close>

text \<open>A channel that takes at most \<open>c\<close> bytes in each call, and one that does so
  for the first \<open>j\<close> calls and answers \<open>res\<close> from then on.\<close>

definition takes_at_most :: "int \<Rightarrow> write_calls" where
  "takes_at_most c = (\<lambda>k n. \<lparr>rval = min c (int n), errno = EAGAIN\<rparr>)"

definition answers_from :: "nat \<Rightarrow> sys_result \<Rightarrow> int \<Rightarrow> write_calls" where
  "answers_from j res c =
     (\<lambda>k n. if k < j then \<lparr>rval = min c (int n), errno = EAGAIN\<rparr> else res)"

definition posix_build :: build_config where
  "posix_build =
     \<lparr>OPENTHREAD_POSIX_VIRTUAL_TIME = False,
      OPENTHREAD_CONFIG_POSIX_APP_ENABLE_PTY_DEVICE = True,
      NDEBUG = False,
      defined_B = (\<lambda>speed. True)\<rparr>"

text \<open>A terminal that opens as descriptor \<open>fd\<close> and accepts every setting; a
  \<^verbatim>\<open>forkpty\<close> that succeeds in the parent with descriptor \<open>fd\<close>, where setting
  the flags answers \<open>setfl\<close>; the answers to \<^verbatim>\<open>Init\<close> for a file of type \<open>mode\<close>;
  and a process that holds its three standard descriptors.\<close>

definition tty_env :: "int \<Rightarrow> openfile_env" where
  "tty_env fd =
     \<lparr>open_rval = fd, isatty_rval = True, tcgetattr_rval = 0, cfsetspeed_rval = 0,
      tcsetattr_rval = 0, tcflush_rval = 0\<rparr>"

definition pty_parent_env :: "int \<Rightarrow> int \<Rightarrow> forkpty_env" where
  "pty_parent_env fd setfl =
     \<lparr>forkpty_rval = 4711, forkpty_fd = fd, rlim_cur = 1024, setenv_rval = 0,
      execl_fails = False, fcntl_getfl_rval = 2, fcntl_setfl_rval = setfl\<rparr>"

definition init_answers :: "file_type \<Rightarrow> int \<Rightarrow> int \<Rightarrow> init_env" where
  "init_answers mode fd setfl =
     \<lparr>stat_rval = 0, st_mode = mode, openfile = tty_env fd,
      forkpty = pty_parent_env fd setfl\<rparr>"

definition kernel0 :: kernel where
  "kernel0 = \<lparr>open_fds = {0, 1, 2}, tty_attr = None\<rparr>"

section \<open>The write loop\<close>

lemma unat_cast_count:
  assumes "0 < r" and "r \<le> int (unat (len :: uint16_t))"
  shows "unat (word_of_int r :: uint16_t) = nat r"
proof -
  have "unat len < 2 ^ 16" using unsigned_less [of len, where 'a = nat] by simp
  with assms have "nat r < 2 ^ 16" by linarith
  moreover have "(word_of_int r :: uint16_t) = of_nat (nat r)"
    using assms by simp
  ultimately show ?thesis by (simp add: unat_of_nat)
qed

lemma unat_remaining:
  assumes "0 < r" and "r \<le> int (unat (len :: uint16_t))"
  shows "unat (len - word_of_int r) = unat len - nat r"
proof -
  have c: "unat (word_of_int r :: uint16_t) = nat r"
    using assms by (rule unat_cast_count)
  have "nat r \<le> unat len" using assms by linarith
  with c have "(word_of_int r :: uint16_t) \<le> len"
    by (simp only: word_le_nat_alt)
  then show ?thesis using c by (simp add: unat_sub)
qed

lemma Write_loop_zero:
  "Write_loop wr mem k aFrame 0 chan = Some (OT_ERROR_NONE, chan)"
  by (subst Write_loop.simps) simp

lemma Write_loop_fail:
  assumes "aLength \<noteq> 0" and "rval (wr k (unat aLength)) \<le> 0"
  shows "Write_loop wr mem k aFrame aLength chan = Some (OT_ERROR_FAILED, chan)"
  using assms by (subst Write_loop.simps) simp

lemma Write_loop_step:
  assumes "aLength \<noteq> 0" and "0 < rval (wr k (unat aLength))"
    and "rval (wr k (unat aLength)) \<le> int (unat aLength)"
  shows "Write_loop wr mem k aFrame aLength chan =
           Write_loop wr mem (Suc k) (aFrame + nat (rval (wr k (unat aLength))))
             (aLength - word_of_int (rval (wr k (unat aLength))))
             (chan @ take (nat (rval (wr k (unat aLength)))) (drop aFrame mem))"
proof -
  let ?r = "rval (wr k (unat aLength))"
  have c: "unat (word_of_int ?r :: uint16_t) = nat ?r"
    using assms(2,3) by (rule unat_cast_count)
  have "nat ?r \<le> unat aLength" using assms(2,3) by linarith
  then have t: "min (nat ?r) (unat aLength) = nat ?r"
    by simp
  show ?thesis
    by (subst Write_loop.simps) (simp add: assms(1,2) c t)
qed

lemma Write_loop_sends_prefix:
  assumes bound: "\<forall>k n. 0 < n \<longrightarrow> rval (wr k n) \<le> int n"
  shows "\<exists>e m. Write_loop wr mem k aFrame aLength chan = Some (e, chan @ take m (drop aFrame mem))
           \<and> m \<le> unat aLength \<and> (e = OT_ERROR_NONE \<longleftrightarrow> m = unat aLength)
           \<and> (e = OT_ERROR_NONE \<or> e = OT_ERROR_FAILED)"
proof (induction "unat aLength" arbitrary: aLength k aFrame chan rule: less_induct)
  case less
  let ?r = "rval (wr k (unat aLength))"
  show ?case
  proof (cases "aLength = 0")
    case True
    then show ?thesis by (auto simp: Write_loop_zero intro!: exI [of _ 0])
  next
    case nz: False
    then have pos: "0 < unat aLength" by (simp add: unat_gt_0)
    show ?thesis
    proof (cases "0 < ?r")
      case False
      then have "Write_loop wr mem k aFrame aLength chan = Some (OT_ERROR_FAILED, chan)"
        using nz by (simp add: Write_loop_fail)
      with pos show ?thesis by (auto intro!: exI [of _ 0])
    next
      case True
      have le: "?r \<le> int (unat aLength)" using bound pos by blast
      have dec: "unat (aLength - word_of_int ?r) = unat aLength - nat ?r"
        using True le by (rule unat_remaining)
      then have "unat (aLength - word_of_int ?r) < unat aLength"
        using True pos by linarith
      from less [OF this, of "Suc k" "aFrame + nat ?r" "chan @ take (nat ?r) (drop aFrame mem)"]
      obtain e m where
        res: "Write_loop wr mem (Suc k) (aFrame + nat ?r) (aLength - word_of_int ?r)
                (chan @ take (nat ?r) (drop aFrame mem))
              = Some (e, (chan @ take (nat ?r) (drop aFrame mem)) @ take m (drop (aFrame + nat ?r) mem))"
        and m: "m \<le> unat (aLength - word_of_int ?r)"
        and em: "e = OT_ERROR_NONE \<longleftrightarrow> m = unat (aLength - word_of_int ?r)"
        and e: "e = OT_ERROR_NONE \<or> e = OT_ERROR_FAILED"
        by blast
      have d: "drop (aFrame + nat ?r) mem = drop (nat ?r) (drop aFrame mem)"
        by (simp add: add.commute)
      have j: "take (nat ?r) (drop aFrame mem) @ take m (drop (aFrame + nat ?r) mem)
                 = take (nat ?r + m) (drop aFrame mem)"
        unfolding d by (rule take_add [symmetric])
      have "Write_loop wr mem k aFrame aLength chan
              = Some (e, chan @ take (nat ?r + m) (drop aFrame mem))"
        using Write_loop_step [where wr = wr and k = k and mem = mem and aFrame = aFrame
            and chan = chan, OF nz True le] res j by simp
      moreover have "nat ?r + m \<le> unat aLength" using m dec le True by linarith
      moreover have "e = OT_ERROR_NONE \<longleftrightarrow> nat ?r + m = unat aLength"
        using em dec le True by linarith
      ultimately show ?thesis using e by blast
    qed
  qed
qed

lemma Write_loop_all_sent:
  assumes ok: "\<forall>k n. 0 < n \<longrightarrow> 0 < rval (wr k n) \<and> rval (wr k n) \<le> int n"
  shows "Write_loop wr mem k aFrame aLength chan
           = Some (OT_ERROR_NONE, chan @ take (unat aLength) (drop aFrame mem))"
proof (induction "unat aLength" arbitrary: aLength k aFrame chan rule: less_induct)
  case less
  let ?r = "rval (wr k (unat aLength))"
  show ?case
  proof (cases "aLength = 0")
    case True
    then show ?thesis by (simp add: Write_loop_zero)
  next
    case nz: False
    then have pos: "0 < unat aLength" by (simp add: unat_gt_0)
    have r: "0 < ?r" and le: "?r \<le> int (unat aLength)" using ok pos by blast+
    have dec: "unat (aLength - word_of_int ?r) = unat aLength - nat ?r"
      using r le by (rule unat_remaining)
    then have "unat (aLength - word_of_int ?r) < unat aLength"
      using r pos by linarith
    note ih = less [OF this, of "Suc k" "aFrame + nat ?r" "chan @ take (nat ?r) (drop aFrame mem)"]
    have d: "drop (aFrame + nat ?r) mem = drop (nat ?r) (drop aFrame mem)"
      by (simp add: add.commute)
    have a: "nat ?r + (unat aLength - nat ?r) = unat aLength" using r le by linarith
    have "take (nat ?r) (drop aFrame mem) @ take (unat aLength - nat ?r) (drop (aFrame + nat ?r) mem)
               = take (nat ?r + (unat aLength - nat ?r)) (drop aFrame mem)"
      unfolding d by (rule take_add [symmetric])
    then have j: "take (nat ?r) (drop aFrame mem) @ take (unat aLength - nat ?r) (drop (aFrame + nat ?r) mem)
               = take (unat aLength) (drop aFrame mem)"
      by (simp only: a)
    show ?thesis
      using Write_loop_step [where wr = wr and k = k and mem = mem and aFrame = aFrame
          and chan = chan, OF nz r le] ih j dec by simp
  qed
qed


text \<open>
  C1. When every call of \<^verbatim>\<open>write\<close> answers a positive count, at most the count
  it was given, the loop returns \<^verbatim>\<open>OT_ERROR_NONE\<close> and the channel has taken
  exactly the \<open>aLength\<close> bytes at \<open>aFrame\<close>, each once and in order, after what it
  held before. One iteration with answer \<open>r\<close> moves the pointer by \<open>r\<close>, lowers
  the remaining length by \<open>r\<close> and hands the channel the \<open>r\<close> bytes at the
  pointer; with nothing remaining the loop returns success at once.
\<close>

theorem Write_loop_sends_frame_once_in_order:
  assumes "\<forall>k n. 0 < n \<longrightarrow> 0 < rval (wr k n) \<and> rval (wr k n) \<le> int n"
  shows "Write_loop wr mem k aFrame aLength chan
           = Some (OT_ERROR_NONE, chan @ take (unat aLength) (drop aFrame mem))
       \<and> Write_loop wr mem 0 0 aLength [] = Some (OT_ERROR_NONE, take (unat aLength) mem)
       \<and> Write_loop wr mem k aFrame 0 chan = Some (OT_ERROR_NONE, chan)
       \<and> (aLength \<noteq> 0 \<longrightarrow>
            Write_loop wr mem k aFrame aLength chan
              = Write_loop wr mem (Suc k) (aFrame + nat (rval (wr k (unat aLength))))
                  (aLength - word_of_int (rval (wr k (unat aLength))))
                  (chan @ take (nat (rval (wr k (unat aLength)))) (drop aFrame mem))
          \<and> unat (aLength - word_of_int (rval (wr k (unat aLength))))
              = unat aLength - nat (rval (wr k (unat aLength))))"
proof -
  have step: "0 < rval (wr k (unat aLength)) \<and> rval (wr k (unat aLength)) \<le> int (unat aLength)"
    if "aLength \<noteq> 0"
  proof -
    from that have "0 < unat aLength" by (simp add: unat_gt_0)
    with assms show ?thesis by blast
  qed
  have "Write_loop wr mem 0 0 aLength [] = Some (OT_ERROR_NONE, [] @ take (unat aLength) (drop 0 mem))"
    using assms by (rule Write_loop_all_sent)
  then show ?thesis
    using Write_loop_all_sent [OF assms, of mem k aFrame aLength chan]
      Write_loop_zero [of wr mem k aFrame chan] step
      Write_loop_step [where wr = wr and k = k and mem = mem and aFrame = aFrame
        and chan = chan and aLength = aLength]
      unat_remaining [of "rval (wr k (unat aLength))" aLength]
    by simp
qed

theorem Write_loop_sends_frame_once_in_order_witness:
  "Write_loop (takes_at_most 3) [1, 2, 3, 4, 5] 0 0 5 [] = Some (OT_ERROR_NONE, [1, 2, 3, 4, 5])
   \<and> Write_loop (takes_at_most 3) [1, 2, 3, 4, 5] 0 0 5 []
       = Write_loop (takes_at_most 3) [1, 2, 3, 4, 5] 1 3 2 [1, 2, 3]"
proof -
  have h: "\<forall>k n. 0 < n \<longrightarrow> 0 < rval (takes_at_most 3 k n) \<and> rval (takes_at_most 3 k n) \<le> int n"
    by (simp add: takes_at_most_def)
  show ?thesis
    using h Write_loop_sends_frame_once_in_order [OF h, of "[1, 2, 3, 4, 5]" 0 0 5 "[]"]
    by (auto simp: takes_at_most_def)
qed

text \<open>
  C10. A call of \<^verbatim>\<open>write\<close> that answers 0 makes the loop return
  \<^verbatim>\<open>OT_ERROR_FAILED\<close> at once, and the channel has taken nothing more. The loop
  returns for every sequence of answers of \<^verbatim>\<open>write\<close>, an answer being at most
  the count the call was given: an answer \<open>r > 0\<close> strictly lowers the
  remaining length, any other answer returns.
\<close>

theorem Write_loop_zero_fails_and_loop_terminates:
  "(aLength \<noteq> 0 \<and> rval (wr k (unat aLength)) = 0 \<longrightarrow>
      Write_loop wr mem k aFrame aLength chan = Some (OT_ERROR_FAILED, chan))
   \<and> ((\<forall>k n. 0 < n \<longrightarrow> rval (wr k n) \<le> int n) \<longrightarrow>
        (\<exists>res. Write_loop wr mem k aFrame aLength chan = Some res))
   \<and> (0 < r \<and> r \<le> int (unat aLength) \<longrightarrow>
        unat (aLength - word_of_int r) < unat aLength)
   \<and> (aLength \<noteq> 0 \<and> rval (wr k (unat aLength)) \<le> 0 \<longrightarrow>
        Write_loop wr mem k aFrame aLength chan = Some (OT_ERROR_FAILED, chan))"
proof -
  have "\<exists>res. Write_loop wr mem k aFrame aLength chan = Some res"
    if "\<forall>k n. 0 < n \<longrightarrow> rval (wr k n) \<le> int n"
    using Write_loop_sends_prefix [OF that, of mem k aFrame aLength chan] by blast
  moreover have "unat (aLength - word_of_int r) < unat aLength"
    if "0 < r \<and> r \<le> int (unat aLength)"
    using that unat_remaining [of r aLength] by linarith
  ultimately show ?thesis
    using Write_loop_fail [of aLength wr k mem aFrame chan] by simp
qed

theorem Write_loop_zero_fails_and_loop_terminates_witness:
  "(3 :: uint16_t) \<noteq> 0
   \<and> rval (answers_from 1 \<lparr>rval = 0, errno = EAGAIN\<rparr> 2 1 (unat (3 :: uint16_t))) = 0
   \<and> Write_loop (answers_from 1 \<lparr>rval = 0, errno = EAGAIN\<rparr> 2) [1, 2, 3, 4, 5] 1 2 3 [1, 2]
       = Some (OT_ERROR_FAILED, [1, 2])
   \<and> (\<exists>res. Write_loop (answers_from 1 \<lparr>rval = 0, errno = EAGAIN\<rparr> 2) [1, 2, 3, 4, 5] 1 2 3 [1, 2]
         = Some res)
   \<and> (0 :: int) < 2 \<and> 2 \<le> int (unat (3 :: uint16_t))
   \<and> unat ((3 :: uint16_t) - word_of_int 2) < unat (3 :: uint16_t)"
proof -
  have h: "\<forall>k n. 0 < n \<longrightarrow> rval (answers_from 1 \<lparr>rval = 0, errno = EAGAIN\<rparr> 2 k n) \<le> int n"
    by (simp add: answers_from_def)
  show ?thesis
    using h Write_loop_zero_fails_and_loop_terminates
      [of 3 "answers_from 1 \<lparr>rval = 0, errno = EAGAIN\<rparr> 2" 1 "[1, 2, 3, 4, 5]" 2 "[1, 2]" 2]
    by (simp add: answers_from_def)
qed

section \<open>Sending a frame\<close>




section \<open>Reading\<close>

text \<open>
  C3. The code tests \<^verbatim>\<open>errno\<close> after \<^verbatim>\<open>perror\<close> has run, not as \<^verbatim>\<open>read\<close>
  left it. When \<^verbatim>\<open>read\<close> answers \<open>-1\<close> with \<^verbatim>\<open>EAGAIN\<close> and \<^verbatim>\<open>perror\<close>
  leaves \<^verbatim>\<open>EINVAL\<close> in \<^verbatim>\<open>errno\<close> (the standard error stream is a pipe or is
  write-only) or \<^verbatim>\<open>EBADF\<close> (it is closed), the would-block read ends the
  process in \<^verbatim>\<open>abort\<close> instead of returning.
\<close>

theorem Read_would_block_aborts_after_perror:
  "Read (ReadCall \<lparr>rval = -1, errno = EAGAIN, perror_errno = EINVAL\<rparr> [0, 0, 0] [])
        \<lparr>mSockFd = 3, mIsDecoding = False\<rparr> [] = Aborted
   \<and> Read (ReadCall \<lparr>rval = -1, errno = EAGAIN, perror_errno = EBADF\<rparr> [0, 0, 0] [])
        \<lparr>mSockFd = 3, mIsDecoding = False\<rparr> [] = Aborted"
  by simp

section \<open>Opening and closing the channel\<close>

text \<open>
  C4. On an object whose descriptor is not \<open>-1\<close>, \<^verbatim>\<open>Init\<close> returns
  \<^verbatim>\<open>OT_ERROR_ALREADY\<close> whatever the file and the configuration are, and the
  object and the descriptors of the process are as before.
\<close>

theorem Init_on_live_channel_is_ALREADY:
  assumes "mSockFd s \<noteq> -1"
  shows "Init cfg env aRadioFile aRadioConfig kern s = Returned (OT_ERROR_ALREADY, s, kern)"
  using assms by (simp add: Init_def)

theorem Init_on_live_channel_is_ALREADY_witness:
  "Init posix_build (init_answers CharacterDevice 4 0) ''/dev/ttyUSB0'' ''115200N1'' kernel0
       \<lparr>mSockFd = 3, mIsDecoding = False\<rparr>
     = Returned (OT_ERROR_ALREADY, \<lparr>mSockFd = 3, mIsDecoding = False\<rparr>, kernel0)"
  using Init_on_live_channel_is_ALREADY
    [of "\<lparr>mSockFd = 3, mIsDecoding = False\<rparr>" posix_build "init_answers CharacterDevice 4 0"
        "''/dev/ttyUSB0''" "''115200N1''" kernel0]
  by simp

text \<open>
  C7. \<^verbatim>\<open>Deinit\<close> on an open device channel (descriptor 3, no child process):
  \<^verbatim>\<open>close\<close> answers 0 and releases the descriptor, \<^verbatim>\<open>wait\<close> answers \<open>-1\<close>, and
  the function leaves before \<^verbatim>\<open>mSockFd = -1\<close>. The channel is now closed and
  \<open>mSockFd\<close> is still 3, so a second \<^verbatim>\<open>Deinit\<close> passes
  \<^verbatim>\<open>assert(mSockFd != -1)\<close>, in a build with assertions, and calls \<^verbatim>\<open>close\<close>
  on the released descriptor.
\<close>

theorem Deinit_again_on_closed_device_channel:
  "Deinit posix_build \<lparr>close_rval = 0, wait_rval = -1\<rparr> (fd_acquired 3 kernel0)
       \<lparr>mSockFd = 3, mIsDecoding = False\<rparr>
     = Returned (\<lparr>mSockFd = 3, mIsDecoding = False\<rparr>, kernel0)
   \<and> 3 \<notin> open_fds kernel0
   \<and> Deinit posix_build \<lparr>close_rval = -1, wait_rval = -1\<rparr> kernel0
       \<lparr>mSockFd = 3, mIsDecoding = False\<rparr>
     = Returned (\<lparr>mSockFd = 3, mIsDecoding = False\<rparr>, kernel0)"
  by (simp add: Deinit_def assert_fails_def posix_build_def fd_acquired_def fd_released_def
      kernel0_def)

lemma OpenFile_minus_one:
  assumes "OpenFile cfg env aFile aConfig kern = Returned (fd, kern')" and "fd = -1"
  shows "kern' = kern"
  using assms
  by (auto simp: OpenFile_def configure_line_def not_supported_def Let_def
      split: if_splits prod.splits option.splits)

lemma ForkPty_minus_one:
  assumes "ForkPty env aCommand aArguments kern = Returned (fd, kern')" and "fd = -1"
  shows "open_fds kern' \<subseteq> open_fds kern"
  using assms
  by (auto simp: ForkPty_def Let_def fd_acquired_def fd_released_def split: if_splits)

text \<open>
  C9. Whenever \<^verbatim>\<open>Init\<close> returns an error, the object is exactly as it was
  before the call (so an object whose descriptor was \<open>-1\<close> still has \<open>-1\<close>), and
  the process holds no descriptor that it did not hold before.
\<close>

theorem Init_error_leaves_state:
  assumes "Init cfg env aRadioFile aRadioConfig kern s = Returned (error, s', kern')"
    and "error \<noteq> OT_ERROR_NONE"
  shows "s' = s \<and> open_fds kern' \<subseteq> open_fds kern"
proof (cases "mSockFd s = -1 \<and> stat_rval env = 0")
  case False
  with assms show ?thesis by (auto simp: Init_def split: if_splits)
next
  case True
  then have s: "s\<lparr>mSockFd := -1\<rparr> = s" by simp
  show ?thesis
  proof (cases "st_mode env = CharacterDevice")
    case chr: True
    with True assms obtain fd k where
      o: "OpenFile cfg (openfile env) aRadioFile aRadioConfig kern = Returned (fd, k)"
      and r: "store_fd s (fd, k) = Returned (error, s', kern')"
      by (cases "OpenFile cfg (openfile env) aRadioFile aRadioConfig kern")
        (auto simp: Init_def)
    from r assms(2) have "fd = -1" "s' = s\<lparr>mSockFd := -1\<rparr>" "kern' = k"
      by (auto simp: store_fd_def Let_def split: if_splits)
    with o s OpenFile_minus_one [OF o] show ?thesis by simp
  next
    case nchr: False
    show ?thesis
    proof (cases "OPENTHREAD_CONFIG_POSIX_APP_ENABLE_PTY_DEVICE cfg \<and> st_mode env = RegularFile")
      case reg: True
      with True nchr assms obtain fd k where
        o: "ForkPty (forkpty env) aRadioFile aRadioConfig kern = Returned (fd, k)"
        and r: "store_fd s (fd, k) = Returned (error, s', kern')"
        by (cases "ForkPty (forkpty env) aRadioFile aRadioConfig kern")
          (auto simp: Init_def)
      from r assms(2) have "fd = -1" "s' = s\<lparr>mSockFd := -1\<rparr>" "kern' = k"
        by (auto simp: store_fd_def Let_def split: if_splits)
      with o s ForkPty_minus_one [OF o] show ?thesis by simp
    next
      case False
      with True nchr assms show ?thesis by (auto simp: Init_def split: if_splits)
    qed
  qed
qed


theorem Init_error_leaves_state_witness:
  "Init posix_build (init_answers RegularFile 3 (-1)) ''/usr/bin/ot-rcp'' ''1'' kernel0
       HdlcInterface_ctor
     = Returned (OT_ERROR_INVALID_ARGS, HdlcInterface_ctor, kernel0)"
proof -
  have run: "Init posix_build (init_answers RegularFile 3 (-1)) ''/usr/bin/ot-rcp'' ''1'' kernel0
               HdlcInterface_ctor
             = Returned (OT_ERROR_INVALID_ARGS, HdlcInterface_ctor,
                 fd_released 3 (fd_acquired 3 kernel0))"
    by (simp add: Init_def ForkPty_def store_fd_def init_answers_def pty_parent_env_def
        posix_build_def HdlcInterface_ctor_def)
  have "open_fds (fd_released 3 (fd_acquired 3 kernel0)) \<subseteq> open_fds kernel0"
    using Init_error_leaves_state [OF run] by simp
  moreover have "tty_attr (fd_released 3 (fd_acquired 3 kernel0)) = tty_attr kernel0"
    by (simp add: fd_released_def fd_acquired_def)
  moreover have "open_fds kernel0 \<subseteq> open_fds (fd_released 3 (fd_acquired 3 kernel0))"
    by (simp add: fd_released_def fd_acquired_def kernel0_def)
  ultimately have "fd_released 3 (fd_acquired 3 kernel0) = kernel0"
    by (simp add: kernel.equality)
  with run show ?thesis by simp
qed

section \<open>Programming the line\<close>

text \<open>
  C5, as the claim states it, fails: in a build with assertions, a parity letter
  that is not supported ends the process in the failed \<^verbatim>\<open>assert(false)\<close>, before
  \<^verbatim>\<open>exit(OT_EXIT_INVALID_ARGUMENTS)\<close> is reached.
\<close>

theorem OpenFile_bad_parity_fails_assertion:
  "OpenFile posix_build (tty_env 3) ''/dev/ttyUSB0'' ''115200X1'' kernel0 = AssertionFailed"
  by (simp add: OpenFile_def configure_line_def sscanf_config_def scan_number_def isspace_def
      isdigit_def decimal_def stored_unsigned_def stored_signed_def switch_parity_def not_supported_def
      assert_fails_def posix_build_def tty_env_def)

lemma switch_speed_None:
  "switch_speed cfg speed = None \<longleftrightarrow>
     speed \<notin> set always_cases \<and> \<not> (speed \<in> set ifdef_cases \<and> defined_B cfg speed)"
  by (simp add: switch_speed_def)

lemma switch_parity_None:
  "switch_parity parity fl = None \<longleftrightarrow> parity \<notin> {CHR ''N'', CHR ''E'', CHR ''O''}"
  by (simp add: switch_parity_def)

lemma switch_cstopb_None:
  "switch_cstopb cstopb fl = None \<longleftrightarrow> cstopb \<notin> {1, 2}"
  by (simp add: switch_cstopb_def)

lemma not_supported_eq:
  "not_supported cfg = (if NDEBUG cfg then Exited OT_EXIT_INVALID_ARGUMENTS else AssertionFailed)"
  by (simp add: not_supported_def assert_fails_def)

lemma configure_line_unsupported:
  assumes "sscanf_config aConfig (115200, CHR ''N'', 1) = (assigned, speed, parity, cstopb)"
    and "parity \<notin> {CHR ''N'', CHR ''E'', CHR ''O''} \<or> cstopb \<notin> {1, 2}
         \<or> (speed \<notin> set always_cases \<and> \<not> (speed \<in> set ifdef_cases \<and> defined_B cfg speed))"
  shows "configure_line cfg env aConfig fd kern = not_supported cfg"
proof (cases "switch_parity parity {CS8, HUPCL, CREAD, CLOCAL}")
  case None
  then show ?thesis by (simp only: configure_line_def assms(1) prod.case option.case)
next
  case p: (Some fl1)
  show ?thesis
  proof (cases "switch_cstopb cstopb fl1")
    case None
    then show ?thesis by (simp only: configure_line_def assms(1) p prod.case option.case)
  next
    case c: (Some fl2)
    from p have "parity \<in> {CHR ''N'', CHR ''E'', CHR ''O''}"
      using switch_parity_None [of parity "{CS8, HUPCL, CREAD, CLOCAL}"] by auto
    moreover from c have "cstopb \<in> {1, 2}"
      using switch_cstopb_None [of cstopb fl1] by auto
    ultimately have "switch_speed cfg speed = None"
      using assms(2) switch_speed_None [of cfg speed] by blast
    then show ?thesis by (simp only: configure_line_def assms(1) p c prod.case option.case)
  qed
qed

text \<open>
  C5, amended. Once the device is open, is a terminal and \<^verbatim>\<open>tcgetattr\<close> has
  succeeded, a parsed configuration whose parity is not one of N, E, O, or whose
  stop-bit count is not 1 or 2, or whose baud rate is not a case of the switch
  (on this platform), ends the process: with the exit status
  \<^verbatim>\<open>OT_EXIT_INVALID_ARGUMENTS\<close> where assertions are compiled out, and in the
  failed assertion otherwise. No value is put in place of the field, and the
  function does not return.
\<close>

theorem OpenFile_unsupported_field_ends_process:
  assumes "open_rval env \<noteq> -1" and "isatty_rval env" and "tcgetattr_rval env = 0"
    and "sscanf_config aConfig (115200, CHR ''N'', 1) = (assigned, speed, parity, cstopb)"
    and "parity \<notin> {CHR ''N'', CHR ''E'', CHR ''O''} \<or> cstopb \<notin> {1, 2}
         \<or> (speed \<notin> set always_cases \<and> \<not> (speed \<in> set ifdef_cases \<and> defined_B cfg speed))"
  shows "OpenFile cfg env aFile aConfig kern
           = (if NDEBUG cfg then Exited OT_EXIT_INVALID_ARGUMENTS else AssertionFailed)"
  using assms(1-3) configure_line_unsupported [OF assms(4,5), of env "open_rval env"]
  by (simp add: OpenFile_def Let_def not_supported_eq)

theorem OpenFile_unsupported_field_ends_process_witness:
  "OpenFile posix_build (tty_env 3) ''/dev/ttyUSB0'' ''12345N1'' kernel0 = AssertionFailed
   \<and> OpenFile (posix_build\<lparr>NDEBUG := True\<rparr>) (tty_env 3) ''/dev/ttyUSB0'' ''115200N3'' kernel0
       = Exited OT_EXIT_INVALID_ARGUMENTS"
proof -
  have a: "sscanf_config ''12345N1'' (115200, CHR ''N'', 1) = (3, 12345, CHR ''N'', 1)"
    by (simp add: sscanf_config_def scan_number_def isspace_def isdigit_def decimal_def
        stored_unsigned_def stored_signed_def)
  have b: "sscanf_config ''115200N3'' (115200, CHR ''N'', 1) = (3, 115200, CHR ''N'', 3)"
    by (simp add: sscanf_config_def scan_number_def isspace_def isdigit_def decimal_def
        stored_unsigned_def stored_signed_def)
  have e: "open_rval (tty_env 3) \<noteq> -1" "isatty_rval (tty_env 3)" "tcgetattr_rval (tty_env 3) = 0"
    by (simp_all add: tty_env_def)
  show ?thesis
    using OpenFile_unsupported_field_ends_process [OF e a, of posix_build "''/dev/ttyUSB0''" kernel0]
      OpenFile_unsupported_field_ends_process
        [OF e b, of "posix_build\<lparr>NDEBUG := True\<rparr>" "''/dev/ttyUSB0''" kernel0]
    by (simp add: posix_build_def always_cases_def ifdef_cases_def)
qed

lemma sscanf_config_keeps:
  assumes "sscanf_config aConfig (speed0, parity0, cstopb0) = (assigned, speed, parity, cstopb)"
  shows "(assigned < 1 \<longrightarrow> speed = speed0) \<and> (assigned < 2 \<longrightarrow> parity = parity0)
         \<and> (assigned < 3 \<longrightarrow> cstopb = cstopb0)"
  using assms unfolding sscanf_config_def
  by (simp split: option.splits list.splits prod.splits)

lemma isdigit_not_space: "isdigit c \<Longrightarrow> \<not> isspace c"
  by (auto simp: isdigit_def isspace_def)

lemma isdigit_not_sign: "isdigit c \<Longrightarrow> c \<noteq> CHR ''-'' \<and> c \<noteq> CHR ''+''"
  by (auto simp: isdigit_def)

lemma scan_number_digits:
  assumes "ds \<noteq> []" and "list_all isdigit ds" and "rest = [] \<or> \<not> isdigit (hd rest)"
  shows "scan_number (ds @ rest) = Some (decimal ds, rest)"
proof -
  obtain d ds' where ds: "ds = d # ds'" using assms(1) by (cases ds) auto
  then have d: "isdigit d" using assms(2) by simp
  have all: "\<forall>x\<in>set ds. isdigit x" using assms(2) by (simp add: list_all_iff)
  have dw: "dropWhile isspace (ds @ rest) = ds @ rest"
    using ds isdigit_not_space [OF d] by simp
  have tw: "takeWhile isdigit (ds @ rest) = ds"
    using all assms(3) by (cases rest) (simp_all add: takeWhile_append2)
  have dd: "dropWhile isdigit (ds @ rest) = rest"
    using all assms(3) by (cases rest) (simp_all add: dropWhile_append2)
  show ?thesis
    using dw tw dd isdigit_not_sign [OF d] assms(1) ds
    by (simp add: scan_number_def Let_def)
qed

lemma scan_number_Nil: "scan_number [] = None"
  by (simp add: scan_number_def)

lemma sscanf_config_shapes:
  "sscanf_config [] vars = (0, vars)"
  "ds \<noteq> [] \<Longrightarrow> list_all isdigit ds \<Longrightarrow>
     sscanf_config ds (speed0, parity0, cstopb0) = (1, stored_unsigned (decimal ds), parity0, cstopb0)"
  "ds \<noteq> [] \<Longrightarrow> list_all isdigit ds \<Longrightarrow> \<not> isdigit c \<Longrightarrow>
     sscanf_config (ds @ [c]) (speed0, parity0, cstopb0) = (2, stored_unsigned (decimal ds), c, cstopb0)"
proof -
  show "sscanf_config [] vars = (0, vars)"
    by (cases vars) (simp add: sscanf_config_def scan_number_Nil)
next
  assume a: "ds \<noteq> []" "list_all isdigit ds"
  from scan_number_digits [OF a, of "[]"]
  show "sscanf_config ds (speed0, parity0, cstopb0) = (1, stored_unsigned (decimal ds), parity0, cstopb0)"
    by (simp add: sscanf_config_def)
next
  assume a: "ds \<noteq> []" "list_all isdigit ds" and c: "\<not> isdigit c"
  from c scan_number_digits [OF a, of "[c]"]
  show "sscanf_config (ds @ [c]) (speed0, parity0, cstopb0) = (2, stored_unsigned (decimal ds), c, cstopb0)"
    by (simp add: sscanf_config_def scan_number_Nil)
qed


lemma configure_line_Returned:
  assumes "configure_line cfg env aConfig fd kern = Returned (fd', kern')"
    and "sscanf_config aConfig (115200, CHR ''N'', 1) = (assigned, speed, parity, cstopb)"
  shows "\<exists>fl1 fl2 sp. switch_parity parity {CS8, HUPCL, CREAD, CLOCAL} = Some fl1
           \<and> switch_cstopb cstopb fl1 = Some fl2 \<and> switch_speed cfg speed = Some sp
           \<and> tty_attr kern' = Some \<lparr>c_cflag = fl2, c_speed = sp\<rparr>"
proof (cases "switch_parity parity {CS8, HUPCL, CREAD, CLOCAL}")
  case None
  then have "configure_line cfg env aConfig fd kern = not_supported cfg"
    by (simp only: configure_line_def assms(2) prod.case option.case)
  with assms(1) show ?thesis by (simp add: not_supported_eq split: if_splits)
next
  case p: (Some fl1)
  show ?thesis
  proof (cases "switch_cstopb cstopb fl1")
    case None
    then have "configure_line cfg env aConfig fd kern = not_supported cfg"
      by (simp only: configure_line_def assms(2) p prod.case option.case)
    with assms(1) show ?thesis by (simp add: not_supported_eq split: if_splits)
  next
    case c: (Some fl2)
    show ?thesis
    proof (cases "switch_speed cfg speed")
      case None
      then have "configure_line cfg env aConfig fd kern = not_supported cfg"
        by (simp only: configure_line_def assms(2) p c prod.case option.case)
      with assms(1) show ?thesis by (simp add: not_supported_eq split: if_splits)
    next
      case sp: (Some sp)
      have "configure_line cfg env aConfig fd kern =
              (if cfsetspeed_rval env \<noteq> 0 then Exited OT_EXIT_FAILURE
               else if tcsetattr_rval env \<noteq> 0 then Exited OT_EXIT_FAILURE
               else if tcflush_rval env \<noteq> 0 then Exited OT_EXIT_FAILURE
               else Returned (fd, kern\<lparr>tty_attr := Some \<lparr>c_cflag = fl2, c_speed = sp\<rparr>\<rparr>))"
        by (simp only: configure_line_def assms(2) p c sp prod.case option.case)
      with assms(1) have "kern' = kern\<lparr>tty_attr := Some \<lparr>c_cflag = fl2, c_speed = sp\<rparr>\<rparr>"
        by (simp split: if_splits)
      with p c sp show ?thesis by simp
    qed
  qed
qed

lemma OpenFile_tty_Returned:
  assumes "OpenFile cfg env aFile aConfig kern = Returned (fd, kern')"
    and "open_rval env \<noteq> -1" and "isatty_rval env"
  shows "configure_line cfg env aConfig (open_rval env) (fd_acquired (open_rval env) kern)
           = Returned (fd, kern')"
  using assms by (simp add: OpenFile_def Let_def split: if_splits)

text \<open>
  C6. When \<^verbatim>\<open>OpenFile\<close> has programmed the line, every field that
  \<^verbatim>\<open>sscanf\<close> did not assign has its default in the attributes programmed:
  \<^verbatim>\<open>B115200\<close> for the baud rate, no parity flag for the parity, \<^verbatim>\<open>CSTOPB\<close>
  clear (1 stop bit) for the stop bits. An empty string assigns nothing, a
  decimal number alone assigns the baud rate only, a decimal number and one
  more character assign the baud rate and the parity only.
\<close>

theorem OpenFile_unspecified_fields_default:
  assumes "OpenFile cfg env aFile aConfig kern = Returned (fd, kern')"
    and "open_rval env \<noteq> -1" and "isatty_rval env"
    and "sscanf_config aConfig (115200, CHR ''N'', 1) = (assigned, speed, parity, cstopb)"
  shows "(\<exists>tios. tty_attr kern' = Some tios
           \<and> (assigned < 1 \<longrightarrow> c_speed tios = B 115200)
           \<and> (assigned < 2 \<longrightarrow> PARENB \<notin> c_cflag tios \<and> PARODD \<notin> c_cflag tios)
           \<and> (assigned < 3 \<longrightarrow> CSTOPB \<notin> c_cflag tios))
       \<and> (aConfig = [] \<longrightarrow> assigned = 0)
       \<and> (aConfig \<noteq> [] \<and> list_all isdigit aConfig \<longrightarrow> assigned = 1)
       \<and> (\<forall>ds c. aConfig = ds @ [c] \<and> ds \<noteq> [] \<and> list_all isdigit ds \<and> \<not> isdigit c
             \<longrightarrow> assigned = 2)"
proof -
  from configure_line_Returned [OF OpenFile_tty_Returned [OF assms(1-3)] assms(4)]
  obtain fl1 fl2 sp where
    p: "switch_parity parity {CS8, HUPCL, CREAD, CLOCAL} = Some fl1"
    and c: "switch_cstopb cstopb fl1 = Some fl2"
    and s: "switch_speed cfg speed = Some sp"
    and t: "tty_attr kern' = Some \<lparr>c_cflag = fl2, c_speed = sp\<rparr>"
    by blast
  note keeps = sscanf_config_keeps [OF assms(4)]
  have 1: "sp = B 115200" if "assigned < 1"
    using that keeps s by (simp add: switch_speed_def always_cases_def)
  have sub: "fl2 - {CSTOPB} \<subseteq> fl1"
    using c by (auto simp: switch_cstopb_def split: if_splits)
  have 2: "PARENB \<notin> fl2 \<and> PARODD \<notin> fl2" if "assigned < 2"
  proof -
    from that keeps p have "fl1 = {CS8, HUPCL, CREAD, CLOCAL}"
      by (simp add: switch_parity_def)
    with sub show ?thesis by auto
  qed
  have 3: "CSTOPB \<notin> fl2" if "assigned < 3"
    using that keeps c by (auto simp: switch_cstopb_def)
  have a: "assigned = 0" if "aConfig = []"
    using that assms(4) sscanf_config_shapes(1) [of "(115200, CHR ''N'', 1)"] by simp
  have b: "assigned = 1" if "aConfig \<noteq> [] \<and> list_all isdigit aConfig"
    using that assms(4) sscanf_config_shapes(2) [of aConfig 115200 "CHR ''N''" 1] by simp
  have d: "assigned = 2"
    if "aConfig = ds @ [ch] \<and> ds \<noteq> [] \<and> list_all isdigit ds \<and> \<not> isdigit ch" for ds ch
    using that assms(4) sscanf_config_shapes(3) [of ds ch 115200 "CHR ''N''" 1] by simp
  from t 1 2 3 have "\<exists>tios. tty_attr kern' = Some tios
           \<and> (assigned < 1 \<longrightarrow> c_speed tios = B 115200)
           \<and> (assigned < 2 \<longrightarrow> PARENB \<notin> c_cflag tios \<and> PARODD \<notin> c_cflag tios)
           \<and> (assigned < 3 \<longrightarrow> CSTOPB \<notin> c_cflag tios)"
    by simp
  with a b d show ?thesis by blast
qed

theorem OpenFile_unspecified_fields_default_witness:
  "OpenFile posix_build (tty_env 3) ''/dev/ttyUSB0'' ''57600'' kernel0
     = Returned (3, \<lparr>open_fds = {0, 1, 2, 3},
          tty_attr = Some \<lparr>c_cflag = {CS8, HUPCL, CREAD, CLOCAL}, c_speed = B 57600\<rparr>\<rparr>)
   \<and> (\<exists>tios. tty_attr \<lparr>open_fds = {0, 1, 2, 3},
          tty_attr = Some \<lparr>c_cflag = {CS8, HUPCL, CREAD, CLOCAL}, c_speed = B 57600\<rparr>\<rparr> = Some tios
        \<and> PARENB \<notin> c_cflag tios \<and> PARODD \<notin> c_cflag tios \<and> CSTOPB \<notin> c_cflag tios)
   \<and> OpenFile posix_build (tty_env 3) ''/dev/ttyUSB0'' [] kernel0
     = Returned (3, \<lparr>open_fds = {0, 1, 2, 3},
          tty_attr = Some \<lparr>c_cflag = {CS8, HUPCL, CREAD, CLOCAL}, c_speed = B 115200\<rparr>\<rparr>)
   \<and> (\<exists>tios. tty_attr \<lparr>open_fds = {0, 1, 2, 3},
          tty_attr = Some \<lparr>c_cflag = {CS8, HUPCL, CREAD, CLOCAL}, c_speed = B 115200\<rparr>\<rparr> = Some tios
        \<and> c_speed tios = B 115200
        \<and> PARENB \<notin> c_cflag tios \<and> PARODD \<notin> c_cflag tios \<and> CSTOPB \<notin> c_cflag tios)"
proof -
  have run: "OpenFile posix_build (tty_env 3) ''/dev/ttyUSB0'' ''57600'' kernel0
     = Returned (3, \<lparr>open_fds = {0, 1, 2, 3},
          tty_attr = Some \<lparr>c_cflag = {CS8, HUPCL, CREAD, CLOCAL}, c_speed = B 57600\<rparr>\<rparr>)"
    by (simp add: OpenFile_def configure_line_def sscanf_config_def scan_number_def isspace_def
        isdigit_def decimal_def stored_unsigned_def stored_signed_def switch_parity_def switch_cstopb_def
        switch_speed_def always_cases_def fd_acquired_def kernel0_def tty_env_def insert_commute)
  have parse: "sscanf_config ''57600'' (115200, CHR ''N'', 1) = (1, 57600, CHR ''N'', 1)"
    by (simp add: sscanf_config_def scan_number_def isspace_def isdigit_def decimal_def
        stored_unsigned_def stored_signed_def)
  have run0: "OpenFile posix_build (tty_env 3) ''/dev/ttyUSB0'' [] kernel0
     = Returned (3, \<lparr>open_fds = {0, 1, 2, 3},
          tty_attr = Some \<lparr>c_cflag = {CS8, HUPCL, CREAD, CLOCAL}, c_speed = B 115200\<rparr>\<rparr>)"
    by (simp add: OpenFile_def configure_line_def sscanf_config_def scan_number_def
        switch_parity_def switch_cstopb_def switch_speed_def always_cases_def fd_acquired_def
        kernel0_def tty_env_def insert_commute)
  have parse0: "sscanf_config [] (115200, CHR ''N'', 1) = (0, 115200, CHR ''N'', 1)"
    by (simp add: sscanf_config_def scan_number_def)
  have e: "open_rval (tty_env 3) \<noteq> -1" "isatty_rval (tty_env 3)"
    by (simp_all add: tty_env_def)
  have a: "\<exists>tios. tty_attr \<lparr>open_fds = {0, 1, 2, 3},
          tty_attr = Some \<lparr>c_cflag = {CS8, HUPCL, CREAD, CLOCAL}, c_speed = B 57600\<rparr>\<rparr> = Some tios
        \<and> PARENB \<notin> c_cflag tios \<and> PARODD \<notin> c_cflag tios \<and> CSTOPB \<notin> c_cflag tios"
    using OpenFile_unspecified_fields_default [OF run e parse] by simp
  have b: "\<exists>tios. tty_attr \<lparr>open_fds = {0, 1, 2, 3},
          tty_attr = Some \<lparr>c_cflag = {CS8, HUPCL, CREAD, CLOCAL}, c_speed = B 115200\<rparr>\<rparr> = Some tios
        \<and> c_speed tios = B 115200
        \<and> PARENB \<notin> c_cflag tios \<and> PARODD \<notin> c_cflag tios \<and> CSTOPB \<notin> c_cflag tios"
    using OpenFile_unspecified_fields_default [OF run0 e parse0] by simp
  show ?thesis
    by (rule conjI [OF run conjI [OF a conjI [OF run0 b]]])
qed

section \<open>The flag \<open>mIsDecoding\<close>\<close>

text \<open>
  C8, as the claim states it, fails: \<^verbatim>\<open>Read\<close> does not test \<open>mIsDecoding\<close>. A
  listener that calls \<^verbatim>\<open>Read\<close> from its frame callback gets a second
  \<^verbatim>\<open>read\<close> and a second run of the decoder while the flag is true, and when
  that call returns the flag is false for the rest of the outer callbacks.
\<close>

theorem Read_from_callback_is_not_prevented:
  "Read (ReadCall \<lparr>rval = 1, errno = EAGAIN, perror_errno = EAGAIN\<rparr> [0x7E]
           [FrameCallback [ReadCall \<lparr>rval = 1, errno = EAGAIN, perror_errno = EAGAIN\<rparr> [0x7D] []], ErrorCallback])
        \<lparr>mSockFd = 3, mIsDecoding = False\<rparr> []
     = Returned (\<lparr>mSockFd = 3, mIsDecoding = False\<rparr>,
         [SysRead False, DecoderInput [0x7E], InListener True,
          SysRead True, DecoderInput [0x7D], InListener False, InErrorHandler False])"
  by simp

lemma Hdlc_Decoder_Decode_no_call:
  assumes "list_all makes_no_call cbs"
  shows "Hdlc_Decoder_Decode cbs s t = Returned (s, t @ map (seen_in (mIsDecoding s)) cbs)"
  using assms
proof (induction cbs arbitrary: t)
  case Nil
  then show ?case by simp
next
  case (Cons cb cbs)
  then show ?case by (cases cb) simp_all
qed

text \<open>
  C8, amended. In a call of \<^verbatim>\<open>Read\<close> whose callbacks make no call of
  \<^verbatim>\<open>Read\<close>, the flag \<open>mIsDecoding\<close> is true in every callback of the decoder
  and false when \<^verbatim>\<open>Read\<close> returns. \<^verbatim>\<open>Read\<close> itself reads and decodes
  whatever the value of the flag is when it is called.
\<close>

theorem Decode_sets_flag_for_callbacks:
  assumes "list_all makes_no_call cbs" and "0 < rval res"
  shows "Read (ReadCall res buffer cbs) s t =
           Returned (s\<lparr>mIsDecoding := False\<rparr>,
             t @ [SysRead (mIsDecoding s),
                  DecoderInput (take (unat (word_of_int (rval res) :: uint16_t)) buffer)]
               @ map (seen_in True) cbs)"
  using assms(2) Hdlc_Decoder_Decode_no_call [OF assms(1)] by simp

theorem Decode_sets_flag_for_callbacks_witness:
  "Read (ReadCall \<lparr>rval = 2, errno = EAGAIN, perror_errno = EAGAIN\<rparr> [0x7E, 0x7E, 0] [FrameCallback [], ErrorCallback])
        \<lparr>mSockFd = 3, mIsDecoding = True\<rparr> []
     = Returned (\<lparr>mSockFd = 3, mIsDecoding = False\<rparr>,
         [SysRead True, DecoderInput [0x7E, 0x7E], InListener True, InErrorHandler True])"
  using Decode_sets_flag_for_callbacks
    [of "[FrameCallback [], ErrorCallback]" "\<lparr>rval = 2, errno = EAGAIN, perror_errno = EAGAIN\<rparr>"
        "[0x7E, 0x7E, 0]"
        "\<lparr>mSockFd = 3, mIsDecoding = True\<rparr>" "[]"]
  by simp

end
